theory Spec2Isabelle
  imports Complex_Main
begin

section \<open>Common ground: Python exceptions, the file system, small builtins\<close>

text \<open>
  The exception classes a call can end with. The builtin classes are the ones the
  source raises directly or through a builtin (\<open>int\<close>, indexing, attribute access,
  dictionary lookup, file loading). \<open>ConfigurationError\<close>, \<open>GridMismatchError\<close> and
  \<open>InsufficientSampleError\<close> are the classes named by the specification's taxonomy;
  no statement of the two source files raises them.
\<close>

datatype pyexc =
    IndexError
  | KeyError string
  | ValueError string
  | TypeError
  | OverflowError
  | AttributeError
  | FileNotFoundError string
  | RuntimeError string
  | UnboundLocalError
  | ConfigurationError
  | GridMismatchError
  | InsufficientSampleError

text \<open>
  The part of the operating system the code touches: the files (path to content),
  the directories that exist, the process environment, what \<open>os.path.abspath\<close> answers
  (it depends on the working directory, so it is a field of the state), and what
  \<open>print\<close> has written.
\<close>

record 'f fsys =
  files :: "string \<rightharpoonup> 'f"
  dirs :: "string set"
  environ :: "string \<rightharpoonup> string"
  abspath :: "string \<Rightarrow> string"
  stdout :: "string list"

definition write_file :: "string \<Rightarrow> 'f \<Rightarrow> 'f fsys \<Rightarrow> 'f fsys" where
  "write_file p c w = w\<lparr>files := (files w)(p \<mapsto> c)\<rparr>"

definition makedirs :: "string \<Rightarrow> 'f fsys \<Rightarrow> 'f fsys" where
  \<comment> \<open>\<open>os.makedirs(p, exist_ok=True)\<close>\<close>
  "makedirs p w = w\<lparr>dirs := insert p (dirs w)\<rparr>"


definition dict_get :: "(string \<rightharpoonup> 'v) \<Rightarrow> string \<Rightarrow> pyexc + 'v" where
  \<comment> \<open>\<open>d[k]\<close> on a dictionary\<close>
  "dict_get d k = (case d k of None \<Rightarrow> Inl (KeyError k) | Some v \<Rightarrow> Inr v)"

definition seq_get :: "'a list \<Rightarrow> nat \<Rightarrow> pyexc + 'a" where
  \<comment> \<open>\<open>xs[i]\<close> on a list or tuple, for a literal index \<open>i \<ge> 0\<close>\<close>
  "seq_get xs i = (if i < length xs then Inr (xs ! i) else Inl IndexError)"

function str_nat :: "nat \<Rightarrow> string" where
  \<comment> \<open>\<open>str(x)\<close> of a non-negative integer: its decimal digits\<close>
  "str_nat n =
     (if n < 10 then [''0123456789'' ! n]
      else str_nat (n div 10) @ [''0123456789'' ! (n mod 10)])"
  by pat_completeness auto
termination
  by (relation "measure id") auto

declare str_nat.simps [simp del]

section \<open>\<open>preprocess_bold_pkg/utils.py\<close>: \<open>split_volumes\<close>\<close>

text \<open>
  A NIfTI image as nibabel presents it: the shape tuple, the voxel data indexed by
  a full index vector, the affine and the header (both only copied here).
\<close>

record ('v, 'h) nifti =
  shape :: "nat list"
  dataobj :: "nat list \<Rightarrow> 'v"
  affine :: "real list list"
  header :: 'h



definition slice_fname :: "('v, 'h) nifti fsys \<Rightarrow> string \<Rightarrow> nat \<Rightarrow> string" where
  "slice_fname w output_prefix x =
     abspath w (output_prefix @ ''vol'' @ str_nat x @ ''.nii.gz'')"





section \<open>Calls that may raise, in sequence\<close>

text \<open>
  A statement of an interface is a function from the state of the file system to a
  result (an exception or a value) and the state it leaves. \<open>then_do\<close> runs the next
  statement only when the one before returned; an exception ends the run and keeps
  the state reached.
\<close>

definition lift :: "pyexc + 'a \<Rightarrow> 's \<Rightarrow> (pyexc + 'a) \<times> 's" where
  "lift r w = (r, w)"

definition then_do ::
  "('s \<Rightarrow> (pyexc + 'a) \<times> 's) \<Rightarrow> ('a \<Rightarrow> 's \<Rightarrow> (pyexc + 'b) \<times> 's) \<Rightarrow> 's \<Rightarrow> (pyexc + 'b) \<times> 's" where
  "then_do m f w = (case m w of (Inl e, w') \<Rightarrow> (Inl e, w') | (Inr x, w') \<Rightarrow> f x w')"

definition sitk_ReadImage :: "string \<Rightarrow> 'f fsys \<Rightarrow> (pyexc + 'f) \<times> 'f fsys" where
  \<comment> \<open>SimpleITK raises a RuntimeError on a file it cannot read\<close>
  "sitk_ReadImage p w =
     (case files w p of None \<Rightarrow> (Inl (RuntimeError p), w) | Some img \<Rightarrow> (Inr img, w))"

definition sitk_WriteImage :: "'f \<Rightarrow> string \<Rightarrow> 'f fsys \<Rightarrow> (pyexc + unit) \<times> 'f fsys" where
  "sitk_WriteImage img p w = (Inr (), write_file p img w)"

section \<open>\<open>diagnosis_pkg/interfaces.py\<close>: \<open>PrepMasks\<close>\<close>

text \<open>
  The input traits of \<open>PrepMasks\<close>. \<open>mask_dict_list\<close> is an untyped trait list (it may
  nest); \<open>rabies.utils.flatten_list\<close>, which is not among the source files, turns it
  into the list of per-scan mask dictionaries and is an argument of the model.
\<close>

record 'i prep_masks_inputs =
  pm_mask_dict_list :: 'i
  pm_prior_maps :: string
  pm_DSURQE_regions :: bool

text \<open>The dictionary literal that \<open>PrepMasks\<close> outputs, with its eight keys.\<close>

record mask_file_dict =
  template_file :: string
  brain_mask :: string
  WM_mask :: string
  CSF_mask :: string
  edge_mask :: string
  right_hem_mask :: string
  left_hem_mask :: string
  prior_maps_file :: string

text \<open>
  The helpers \<open>PrepMasks\<close> calls that live outside the two source files:
  \<open>GetSpacing\<close> (SimpleITK), \<open>rabies.utils.resample_image_spacing\<close>,
  \<open>diagnosis_functions.resample_mask\<close>, \<open>analysis_functions.resample_IC_file\<close> and
  \<open>diagnosis_functions.compute_edge_mask\<close>. The last three work on files and so on
  the state.
\<close>

record 'img prep_masks_helpers =
  GetSpacing :: "'img \<Rightarrow> real list"
  resample_image_spacing :: "'img \<Rightarrow> real list \<Rightarrow> 'img"
  resample_mask :: "string \<Rightarrow> string \<Rightarrow> 'img fsys \<Rightarrow> (pyexc + string) \<times> 'img fsys"
  resample_IC_file :: "string \<Rightarrow> string \<Rightarrow> 'img fsys \<Rightarrow> (pyexc + string) \<times> 'img fsys"
  compute_edge_mask :: "string \<Rightarrow> string \<Rightarrow> nat \<Rightarrow> 'img fsys \<Rightarrow> (pyexc + unit) \<times> 'img fsys"

definition rabies_path :: "'f fsys \<Rightarrow> (pyexc + string) \<times> 'f fsys" where
  \<comment> \<open>lines 49 to 52\<close>
  "rabies_path w =
     (if ''XDG_DATA_HOME'' \<in> dom (environ w)
      then (case dict_get (environ w) ''XDG_DATA_HOME'' of
              Inl e \<Rightarrow> (Inl e, w) | Inr x \<Rightarrow> (Inr (x @ ''/rabies''), w))
      else (case dict_get (environ w) ''HOME'' of
              Inl e \<Rightarrow> (Inl e, w) | Inr x \<Rightarrow> (Inr (x @ ''/.local/share/rabies''), w)))"

definition right_hem_atlas :: "string \<Rightarrow> string" where
  "right_hem_atlas rp = rp @ ''/DSURQE_40micron_right_hem_mask.nii.gz''"

definition left_hem_atlas :: "string \<Rightarrow> string" where
  "left_hem_atlas rp = rp @ ''/DSURQE_40micron_left_hem_mask.nii.gz''"

definition hemisphere_masks ::
  "'img prep_masks_helpers \<Rightarrow> bool \<Rightarrow> string \<Rightarrow> 'img fsys
     \<Rightarrow> (pyexc + string \<times> string) \<times> 'img fsys" where
  \<comment> \<open>lines 48 to 59: the pair (right_hem_mask_file, left_hem_mask_file)\<close>
  "hemisphere_masks h DSURQE brain_mask_file =
     (if DSURQE
      then then_do rabies_path (\<lambda>rp.
           then_do (resample_mask h (right_hem_atlas rp) brain_mask_file) (\<lambda>right_hem_mask_file.
           then_do (resample_mask h (left_hem_atlas rp) brain_mask_file) (\<lambda>left_hem_mask_file.
           lift (Inr (right_hem_mask_file, left_hem_mask_file)))))
      else lift (Inr ([], [])))"

definition PrepMasks_run_interface ::
  "('i \<Rightarrow> (string \<rightharpoonup> string) list) \<Rightarrow> 'img prep_masks_helpers \<Rightarrow> 'i prep_masks_inputs
     \<Rightarrow> 'img fsys \<Rightarrow> (pyexc + mask_file_dict) \<times> 'img fsys" where
  "PrepMasks_run_interface flatten_list h inputs =
     then_do (lift (seq_get (flatten_list (pm_mask_dict_list inputs)) 0)) (\<lambda>mask_dict.
     then_do (lift (dict_get mask_dict ''mask_file'')) (\<lambda>brain_mask_file.
     then_do (lift (dict_get mask_dict ''WM_mask_file'')) (\<lambda>WM_mask_file.
     then_do (lift (dict_get mask_dict ''CSF_mask_file'')) (\<lambda>CSF_mask_file.
     then_do (lift (dict_get mask_dict ''preprocess_anat_template'')) (\<lambda>anat_template.
     then_do (sitk_ReadImage anat_template) (\<lambda>template_img.
     then_do (sitk_ReadImage brain_mask_file) (\<lambda>brain_img.
     then_do (\<lambda>w. (Inr (abspath w ''display_template.nii.gz''), w)) (\<lambda>template_file.
     then_do (sitk_WriteImage
                (resample_image_spacing h template_img (GetSpacing h brain_img)) template_file) (\<lambda>_.
     then_do (hemisphere_masks h (pm_DSURQE_regions inputs) brain_mask_file)
       (\<lambda>(right_hem_mask_file, left_hem_mask_file).
     then_do (resample_IC_file h (pm_prior_maps inputs) brain_mask_file) (\<lambda>prior_maps.
     then_do (\<lambda>w. (Inr (abspath w ''edge_mask.nii.gz''), w)) (\<lambda>edge_mask_file.
     then_do (compute_edge_mask h brain_mask_file edge_mask_file 1) (\<lambda>_.
     lift (Inr \<lparr>template_file = template_file, brain_mask = brain_mask_file,
                 WM_mask = WM_mask_file, CSF_mask = CSF_mask_file,
                 edge_mask = edge_mask_file, right_hem_mask = right_hem_mask_file,
                 left_hem_mask = left_hem_mask_file,
                 prior_maps_file = prior_maps\<rparr>))))))))))))))"

text \<open>
  Modelled from the spec: \<open>diagnosis_functions.resample_mask\<close> is not among the source
  files. The specification (4.1, MaskRegistry) says the hemisphere atlas masks are
  resampled onto the brain-mask grid, label-preserving, and that the build "fails with
  a ConfigurationError if any required mask file is missing for the atlas path" and
  "with a GridMismatchError if resampling cannot reconcile shapes/affines". What the
  spec leaves open is taken as an argument: \<open>onto_grid\<close>, the resampling itself
  (\<open>None\<close> when the grids cannot be reconciled), and \<open>out_name\<close>, where the resampled
  mask is stored.
\<close>

definition resample_mask_spec ::
  "('img \<Rightarrow> 'img \<Rightarrow> 'img option) \<Rightarrow> (string \<Rightarrow> string) \<Rightarrow> string \<Rightarrow> string \<Rightarrow> 'img fsys
     \<Rightarrow> (pyexc + string) \<times> 'img fsys" where
  "resample_mask_spec onto_grid out_name in_file ref_file w =
     (case files w in_file of
        None \<Rightarrow> (Inl ConfigurationError, w)
      | Some m \<Rightarrow>
          (case files w ref_file of
             None \<Rightarrow> (Inl ConfigurationError, w)
           | Some r \<Rightarrow>
               (case onto_grid m r of
                  None \<Rightarrow> (Inl GridMismatchError, w)
                | Some resampled \<Rightarrow>
                    (Inr (out_name in_file), write_file (out_name in_file) resampled w))))"

section \<open>\<open>diagnosis_pkg/interfaces.py\<close>: \<open>ScanDiagnosis\<close>\<close>

text \<open>
  The values an untyped trait list can hold, as far as the builtin \<open>int\<close> tells them
  apart: integers, booleans, floats (finite, infinite or NaN), strings, \<open>None\<close>, and
  any other object without an integer conversion (a list, a dictionary).
\<close>

datatype pyfloat = Finite real | PosInf | NegInf | NaN

datatype pyval = PyInt int | PyBool bool | PyFloat pyfloat | PyStr string | PyNone | PyObject

definition is_space :: "char \<Rightarrow> bool" where
  \<comment> \<open>the ASCII whitespace that \<open>int\<close> strips: space, tab, newline, VT, FF, CR\<close>
  "is_space c = (of_char c \<in> {32, 9, 10, 11, 12, 13 :: nat})"

definition is_digit :: "char \<Rightarrow> bool" where
  "is_digit c = (48 \<le> (of_char c :: nat) \<and> (of_char c :: nat) \<le> 57)"

definition digit_val :: "char \<Rightarrow> nat" where
  "digit_val c = of_char c - 48"

fun parse_digits :: "string \<Rightarrow> nat \<Rightarrow> nat option" where
  \<comment> \<open>after a digit: more digits, single underscores allowed between digits\<close>
  "parse_digits [] acc = Some acc"
| "parse_digits (c # cs) acc =
     (if is_digit c then parse_digits cs (10 * acc + digit_val c)
      else if c = CHR ''_'' then
        (case cs of
           [] \<Rightarrow> None
         | d # ds \<Rightarrow> if is_digit d then parse_digits ds (10 * acc + digit_val d) else None)
      else None)"

definition parse_unsigned :: "string \<Rightarrow> nat option" where
  "parse_unsigned s =
     (case s of [] \<Rightarrow> None
      | c # cs \<Rightarrow> if is_digit c then parse_digits cs (digit_val c) else None)"

definition strip :: "string \<Rightarrow> string" where
  "strip s = rev (dropWhile is_space (rev (dropWhile is_space s)))"

definition int_of_str :: "string \<Rightarrow> int option" where
  \<comment> \<open>the base-10 integer literal of \<open>int(s)\<close>, on ASCII strings\<close>
  "int_of_str s =
     (case strip s of
        [] \<Rightarrow> None
      | c # cs \<Rightarrow>
          if c = CHR ''-'' then map_option (\<lambda>n. - int n) (parse_unsigned cs)
          else if c = CHR ''+'' then map_option int (parse_unsigned cs)
          else map_option int (parse_unsigned (c # cs)))"

fun py_int :: "pyval \<Rightarrow> pyexc + int" where
  \<comment> \<open>the builtin \<open>int(i)\<close>\<close>
  "py_int (PyInt i) = Inr i"
| "py_int (PyBool b) = Inr (if b then 1 else 0)"
| "py_int (PyFloat (Finite x)) = Inr (if 0 \<le> x then \<lfloor>x\<rfloor> else \<lceil>x\<rceil>)"
| "py_int (PyFloat PosInf) = Inl OverflowError"
| "py_int (PyFloat NegInf) = Inl OverflowError"
| "py_int (PyFloat NaN) = Inl (ValueError ''cannot convert float NaN to integer'')"
| "py_int (PyStr s) =
     (case int_of_str s of
        None \<Rightarrow> Inl (ValueError ''invalid literal for int() with base 10'')
      | Some i \<Rightarrow> Inr i)"
| "py_int PyNone = Inl TypeError"
| "py_int PyObject = Inl TypeError"

fun int_each :: "pyval list \<Rightarrow> pyexc + int list" where
  \<comment> \<open>\<open>[int(i) for i in xs]\<close>: the first element that raises ends the comprehension\<close>
  "int_each [] = Inr []"
| "int_each (i # xs) =
     (case py_int i of
        Inl e \<Rightarrow> Inl e
      | Inr n \<Rightarrow> (case int_each xs of Inl e \<Rightarrow> Inl e | Inr ns \<Rightarrow> Inr (n # ns)))"

fun before_sep :: "string \<Rightarrow> string \<Rightarrow> string" where
  \<comment> \<open>\<open>s.rsplit(sep)[0]\<close>: the text before the first occurrence of \<open>sep\<close>\<close>
  "before_sep sep [] = []"
| "before_sep sep (c # cs) =
     (if take (length sep) (c # cs) = sep then [] else c # before_sep sep cs)"

record ('v, 'ad) scan_diagnosis_inputs =
  sd_file_dict :: "string \<rightharpoonup> 'v"
  sd_mask_file_dict :: mask_file_dict
  sd_analysis_dict :: 'ad
  sd_prior_bold_idx :: "pyval list"
  sd_prior_confound_idx :: "pyval list"
  sd_NPR_extra_sources :: int
  sd_DSURQE_regions :: bool

record ('ti, 'si) scan_diagnosis_outputs =
  figure_temporal_diagnosis :: string
  figure_spatial_diagnosis :: string
  temporal_info :: 'ti
  spatial_info :: 'si

text \<open>
  The helpers outside the two source files: \<open>diagnosis_functions.process_data\<close> (its
  first argument here is the list of the seven \<open>file_dict\<close> values it is given, in the
  order of the call), \<open>diagnosis_functions.scan_diagnosis\<close>, which draws the two
  figures, and \<open>pathlib.Path(bold_file).name\<close>.
\<close>

record ('v, 'ad, 'ti, 'si, 'fig) scan_diagnosis_helpers =
  process_data ::
    "'v list \<Rightarrow> mask_file_dict \<Rightarrow> 'ad \<Rightarrow> int list \<Rightarrow> int list \<Rightarrow> int \<Rightarrow> 'fig fsys
       \<Rightarrow> (pyexc + 'ti \<times> 'si) \<times> 'fig fsys"
  scan_diagnosis ::
    "'v \<Rightarrow> mask_file_dict \<Rightarrow> 'ti \<Rightarrow> 'si \<Rightarrow> 'v \<Rightarrow> bool \<Rightarrow> 'fig fsys
       \<Rightarrow> (pyexc + 'fig \<times> 'fig) \<times> 'fig fsys"
  path_name :: "'v \<Rightarrow> pyexc + string"

definition ScanDiagnosis_from_indices ::
  "('v, 'ad, 'ti, 'si, 'fig) scan_diagnosis_helpers \<Rightarrow> ('v, 'ad) scan_diagnosis_inputs
     \<Rightarrow> 'v list \<Rightarrow> int list \<Rightarrow> int list
     \<Rightarrow> 'fig fsys \<Rightarrow> (pyexc + ('ti, 'si) scan_diagnosis_outputs) \<times> 'fig fsys" where
  \<comment> \<open>lines 130 to 149; \<open>file_values\<close> are the seven values read at lines 120 to 126\<close>
  "ScanDiagnosis_from_indices h inputs file_values prior_bold_idx prior_confound_idx =
     then_do (process_data h file_values (sd_mask_file_dict inputs) (sd_analysis_dict inputs)
                prior_bold_idx prior_confound_idx (sd_NPR_extra_sources inputs))
       (\<lambda>(temporal_info, spatial_info).
     then_do (scan_diagnosis h (file_values ! 0) (sd_mask_file_dict inputs) temporal_info
                spatial_info (file_values ! 1) (sd_DSURQE_regions inputs)) (\<lambda>(fig, fig2).
     then_do (lift (path_name h (file_values ! 0))) (\<lambda>name.
     then_do (\<lambda>w. (Inr (abspath w (before_sep ''.nii'' name)), w)) (\<lambda>figure_path.
     then_do (\<lambda>w. (Inr (), write_file (figure_path @ ''_temporal_diagnosis.png'') fig w)) (\<lambda>_.
     then_do (\<lambda>w. (Inr (), write_file (figure_path @ ''_spatial_diagnosis.png'') fig2 w)) (\<lambda>_.
     lift (Inr \<lparr>figure_temporal_diagnosis = figure_path @ ''_temporal_diagnosis.png'',
                 figure_spatial_diagnosis = figure_path @ ''_spatial_diagnosis.png'',
                 temporal_info = temporal_info,
                 spatial_info = spatial_info\<rparr>)))))))"

definition ScanDiagnosis_run_interface ::
  "('v, 'ad, 'ti, 'si, 'fig) scan_diagnosis_helpers \<Rightarrow> ('v, 'ad) scan_diagnosis_inputs
     \<Rightarrow> 'fig fsys \<Rightarrow> (pyexc + ('ti, 'si) scan_diagnosis_outputs) \<times> 'fig fsys" where
  "ScanDiagnosis_run_interface h inputs =
     then_do (lift (dict_get (sd_file_dict inputs) ''bold_file'')) (\<lambda>bold_file.
     then_do (lift (dict_get (sd_file_dict inputs) ''CR_data_dict'')) (\<lambda>CR_data_dict.
     then_do (lift (dict_get (sd_file_dict inputs) ''VE_file'')) (\<lambda>VE_file.
     then_do (lift (dict_get (sd_file_dict inputs) ''STD_file'')) (\<lambda>STD_file.
     then_do (lift (dict_get (sd_file_dict inputs) ''CR_STD_file'')) (\<lambda>CR_STD_file.
     then_do (lift (dict_get (sd_file_dict inputs) ''random_CR_STD_file'')) (\<lambda>random_CR_STD_file.
     then_do (lift (dict_get (sd_file_dict inputs) ''corrected_CR_STD_file'')) (\<lambda>corrected_CR_STD_file.
     then_do (lift (int_each (sd_prior_bold_idx inputs))) (\<lambda>prior_bold_idx.
     then_do (lift (int_each (sd_prior_confound_idx inputs))) (\<lambda>prior_confound_idx.
     ScanDiagnosis_from_indices h inputs
       [bold_file, CR_data_dict, VE_file, STD_file, CR_STD_file, random_CR_STD_file,
        corrected_CR_STD_file]
       prior_bold_idx prior_confound_idx)))))))))"

section \<open>\<open>diagnosis_pkg/interfaces.py\<close>: \<open>DatasetDiagnosis\<close>\<close>

text \<open>
  One scan's record, with the nine keys the interface reads. A one-dimensional array
  over the brain voxels is a list, a two-dimensional one (maps by voxels) a list of
  rows; the comparisons made on the values are exact (\<open>== 0\<close>), so they are reals.
  The records are typed, and so is \<open>mask_file_dict\<close>, which is the dictionary that
  \<open>PrepMasks\<close> builds: a record or dictionary that lacks a key is not an input here.
\<close>

record scan_data =
  temporal_std :: "real list"
  predicted_std :: "real list"
  corrected_CR_std :: "real list"
  random_CR_std :: "real list"
  DR_BOLD :: "real list list"
  NPR_maps :: "real list list"
  tDOF :: int
  seed_list :: "real list list"
  prior_maps :: "real list list"

record 'i dataset_diagnosis_inputs =
  dd_scan_data_list :: 'i
  dd_mask_file_dict :: mask_file_dict
  dd_seed_prior_maps :: "string list"

text \<open>What a file of the dataset run holds: an image volume, a figure or a table.\<close>

datatype ('img, 'fig, 'stats) qc_file = Volume 'img | Figure 'fig | Table 'stats

text \<open>
  The helpers outside the two source files: \<open>sitk.GetArrayFromImage\<close> (the volume,
  flattened), \<open>sitk.Resample\<close>, \<open>rabies.utils.recover_3D\<close>,
  \<open>analysis_QC.analysis_QC\<close>, which is given the figure path and returns the
  statistics, and \<open>np_std\<close>, the float64 that numpy computes for
  \<open>np.array(tdof_list).std()\<close>.
\<close>

record ('img, 'fig, 'stats) dataset_diagnosis_helpers =
  GetArrayFromImage :: "'img \<Rightarrow> real list"
  sitk_Resample :: "'img \<Rightarrow> 'img \<Rightarrow> 'img"
  recover_3D ::
    "string \<Rightarrow> real list \<Rightarrow> ('img, 'fig, 'stats) qc_file fsys
       \<Rightarrow> (pyexc + 'img) \<times> ('img, 'fig, 'stats) qc_file fsys"
  analysis_QC ::
    "real list list \<Rightarrow> real list \<Rightarrow> string \<Rightarrow> real list list list \<Rightarrow> string list \<Rightarrow> string
       \<Rightarrow> string \<Rightarrow> ('img, 'fig, 'stats) qc_file fsys
       \<Rightarrow> (pyexc + 'stats) \<times> ('img, 'fig, 'stats) qc_file fsys"
  np_std :: "int list \<Rightarrow> pyfloat"

definition read_volume ::
  "string \<Rightarrow> ('img, 'fig, 'stats) qc_file fsys
     \<Rightarrow> (pyexc + 'img) \<times> ('img, 'fig, 'stats) qc_file fsys" where
  \<comment> \<open>\<open>sitk.ReadImage\<close> on the files of the dataset run\<close>
  "read_volume p w =
     (case files w p of Some (Volume img) \<Rightarrow> (Inr img, w) | _ \<Rightarrow> (Inl (RuntimeError p), w))"

subsection \<open>Lines 201 to 217: the scan loop\<close>

text \<open>
  The eight lists the loop fills, and the binding of the loop variable \<open>scan_data\<close>,
  which Python keeps after the loop.
\<close>

record collected =
  std_maps :: "real list list"
  CR_std_maps :: "real list list"
  random_CR_std_maps :: "real list list"
  corrected_CR_std_maps :: "real list list"
  DR_maps_list :: "real list list list"
  seed_maps_list :: "real list list list"
  NPR_maps_list :: "real list list list"
  tdof_list :: "int list"
  scan_data_var :: "scan_data option"

definition no_scans :: collected where
  "no_scans =
     \<lparr>std_maps = [], CR_std_maps = [], random_CR_std_maps = [], corrected_CR_std_maps = [],
      DR_maps_list = [], seed_maps_list = [], NPR_maps_list = [], tdof_list = [],
      scan_data_var = None\<rparr>"

fun scan_loop :: "scan_data list \<Rightarrow> collected \<Rightarrow> collected" where
  "scan_loop [] c = c"
| "scan_loop (scan_data # rest) c =
     scan_loop rest
       \<lparr>std_maps = std_maps c @ [temporal_std scan_data],
        CR_std_maps = CR_std_maps c @ [predicted_std scan_data],
        random_CR_std_maps = random_CR_std_maps c @ [random_CR_std scan_data],
        corrected_CR_std_maps = corrected_CR_std_maps c @ [corrected_CR_std scan_data],
        DR_maps_list = DR_maps_list c @ [DR_BOLD scan_data],
        seed_maps_list = seed_maps_list c @ [seed_list scan_data],
        NPR_maps_list = NPR_maps_list c @ [NPR_maps scan_data],
        tdof_list = tdof_list c @ [tDOF scan_data],
        scan_data_var = Some scan_data\<rparr>"

subsection \<open>Line 220: \<open>((std_maps==0).sum(axis=0).astype(bool)==0)\<close>\<close>

text \<open>
  The expression is written for a numpy array, and Python decides at run time what it
  does on the value it is given. The two kinds of value \<open>std_maps\<close> is bound to in
  this function are the Python list that the loop filled (until line 224) and the
  array \<open>np.array(std_maps)\<close> (from line 224 on).

  \<open>x == 0\<close>: on an array, the elementwise comparison; on a list, neither \<open>list.__eq__\<close>
  nor \<open>int.__eq__\<close> knows the other type, and Python answers the plain boolean
  \<open>False\<close>. \<open>.sum(axis=0)\<close>: on a boolean array, the count per column; a Python
  \<open>bool\<close> has no attribute \<open>sum\<close>.
\<close>

datatype py_stack = PyList "real list list" | NdArray "real list list"

datatype py_cmp = Scalar bool | Elementwise "bool list list"

fun eq_zero :: "py_stack \<Rightarrow> py_cmp" where
  "eq_zero (PyList xs) = Scalar False"
| "eq_zero (NdArray a) = Elementwise (map (map (\<lambda>v. v = 0)) a)"

fun col_sums :: "bool list list \<Rightarrow> nat list" where
  "col_sums [] = []"
| "col_sums [r] = map of_bool r"
| "col_sums (r # rs) = map (\<lambda>(x, y). x + y) (zip (map of_bool r) (col_sums rs))"

fun sum_axis0 :: "py_cmp \<Rightarrow> pyexc + nat list" where
  "sum_axis0 (Scalar b) = Inl AttributeError"
| "sum_axis0 (Elementwise rows) = Inr (col_sums rows)"

definition non_zero_voxels_of :: "py_stack \<Rightarrow> pyexc + bool list" where
  "non_zero_voxels_of stack =
     (case sum_axis0 (eq_zero stack) of
        Inl e \<Rightarrow> Inl e
      | Inr counts \<Rightarrow> Inr (map (\<lambda>b. b = False) (map (\<lambda>n. n \<noteq> 0) counts)))"

subsection \<open>Lines 221 to 277: restriction to the mask and the QC comparisons\<close>

definition compress :: "bool list \<Rightarrow> 'a list \<Rightarrow> 'a list" where
  \<comment> \<open>boolean selection along one axis (\<open>xs[sel]\<close>)\<close>
  "compress sel xs = map snd (filter fst (zip sel xs))"

definition take_voxels2 :: "real list list \<Rightarrow> bool list \<Rightarrow> pyexc + real list list" where
  \<comment> \<open>\<open>a[:, sel]\<close>: the selection must be as long as the rows\<close>
  "take_voxels2 a sel =
     (if list_all (\<lambda>r. length r = length sel) a then Inr (map (compress sel) a)
      else Inl IndexError)"

definition take_voxels3 :: "real list list list \<Rightarrow> nat \<Rightarrow> bool list \<Rightarrow> pyexc + real list list" where
  \<comment> \<open>\<open>a[:, i, sel]\<close>\<close>
  "take_voxels3 a i sel =
     (if list_all (\<lambda>m. i < length m \<and> list_all (\<lambda>r. length r = length sel) m) a
      then Inr (map (\<lambda>m. compress sel (m ! i)) a)
      else Inl IndexError)"

definition tdof_effect ::
  "('img, 'fig, 'stats) dataset_diagnosis_helpers \<Rightarrow> int list
     \<Rightarrow> real list list list \<times> string list \<Rightarrow> real list list list \<times> string list" where
  \<comment> \<open>lines 234 to 238, on the pair (corr_variable, variable_name)\<close>
  "tdof_effect h ts cv =
     (if \<not> (np_std h ts = Finite 0)
      then (fst cv @ [map (\<lambda>t. [real_of_int t]) ts], snd cv @ [''tDOF''])
      else cv)"

definition to_csv ::
  "'stats \<Rightarrow> string \<Rightarrow> ('img, 'fig, 'stats) qc_file fsys
     \<Rightarrow> (pyexc + unit) \<times> ('img, 'fig, 'stats) qc_file fsys" where
  \<comment> \<open>\<open>pd.DataFrame(dataset_stats, index=[1]).to_csv(path, index=None)\<close>\<close>
  "to_csv dataset_stats p w = (Inr (), write_file p (Table dataset_stats) w)"

fun qc_maps_loop ::
  "('img, 'fig, 'stats) dataset_diagnosis_helpers \<Rightarrow> string \<Rightarrow> real list list list
     \<Rightarrow> real list list \<Rightarrow> bool list \<Rightarrow> string \<Rightarrow> real list list list \<times> string list \<Rightarrow> string
     \<Rightarrow> string \<Rightarrow> nat list \<Rightarrow> ('img, 'fig, 'stats) qc_file fsys
     \<Rightarrow> (pyexc + unit) \<times> ('img, 'fig, 'stats) qc_file fsys" where
  \<comment> \<open>the three loops \<open>for i in range(num_priors)\<close>; \<open>kind\<close> is DR, NPR or seed_FC\<close>
  "qc_maps_loop h kind maps_list priors non_zero_voxels non_zero_mask cv template
     out_dir [] = lift (Inr ())"
| "qc_maps_loop h kind maps_list priors non_zero_voxels non_zero_mask cv template
     out_dir (i # rest) =
     then_do (lift (take_voxels3 maps_list i non_zero_voxels)) (\<lambda>FC_maps.
     then_do (lift (seq_get priors i)) (\<lambda>prior_map.
     then_do (analysis_QC h FC_maps prior_map non_zero_mask (fst cv) (snd cv) template
                (out_dir @ ''/'' @ kind @ str_nat i @ ''_QC_maps.png'')) (\<lambda>dataset_stats.
     then_do (to_csv dataset_stats (out_dir @ ''/'' @ kind @ str_nat i @ ''_QC_stats.csv'')) (\<lambda>_.
     qc_maps_loop h kind maps_list priors non_zero_voxels non_zero_mask cv template
       out_dir rest))))"

fun seed_priors_loop ::
  "('img, 'fig, 'stats) dataset_diagnosis_helpers \<Rightarrow> string \<Rightarrow> bool list \<Rightarrow> string list
     \<Rightarrow> real list list \<Rightarrow> ('img, 'fig, 'stats) qc_file fsys
     \<Rightarrow> (pyexc + real list list) \<times> ('img, 'fig, 'stats) qc_file fsys" where
  \<comment> \<open>lines 261 to 265\<close>
  "seed_priors_loop h mask_file vol_idx [] acc = lift (Inr acc)"
| "seed_priors_loop h mask_file vol_idx (prior_map # rest) acc =
     then_do (read_volume prior_map) (\<lambda>img.
     then_do (read_volume mask_file) (\<lambda>ref.
     then_do (lift (let arr = GetArrayFromImage h (sitk_Resample h img ref) in
                    if length arr = length vol_idx
                    then Inr (compress vol_idx arr) else Inl IndexError)) (\<lambda>selected.
     seed_priors_loop h mask_file vol_idx rest (acc @ [selected]))))"

definition npr_present :: "real list list list \<Rightarrow> pyexc + bool" where
  \<comment> \<open>\<open>NPR_maps_list.shape[1]>0\<close> on the stacked array\<close>
  "npr_present a = (case a of [] \<Rightarrow> Inl IndexError | m # _ \<Rightarrow> Inr (length m > 0))"

definition qc_comparisons ::
  "('img, 'fig, 'stats) dataset_diagnosis_helpers \<Rightarrow> string list \<Rightarrow> collected \<Rightarrow> bool list
     \<Rightarrow> string \<Rightarrow> string \<Rightarrow> string \<Rightarrow> bool list
     \<Rightarrow> real list list list \<times> string list \<Rightarrow> string
     \<Rightarrow> ('img, 'fig, 'stats) qc_file fsys
     \<Rightarrow> (pyexc + unit) \<times> ('img, 'fig, 'stats) qc_file fsys" where
  \<comment> \<open>lines 240 to 274, with the pair (corr_variable, variable_name) as it is then\<close>
  "qc_comparisons h seed_prior_maps c non_zero_voxels non_zero_mask template mask_file
     vol_idx cv out_dir =
     then_do (lift (case scan_data_var c of
                      None \<Rightarrow> Inl UnboundLocalError
                    | Some scan_data \<Rightarrow> take_voxels2 (prior_maps scan_data) non_zero_voxels))
       (\<lambda>prior_maps.
     then_do (qc_maps_loop h ''DR'' (DR_maps_list c) prior_maps non_zero_voxels non_zero_mask
                cv template out_dir [0..<length prior_maps]) (\<lambda>_.
     then_do (lift (npr_present (NPR_maps_list c))) (\<lambda>present.
     then_do (if present
              then qc_maps_loop h ''NPR'' (NPR_maps_list c) prior_maps non_zero_voxels
                     non_zero_mask cv template out_dir [0..<length prior_maps]
              else lift (Inr ())) (\<lambda>_.
     if length seed_prior_maps > 0
     then then_do (seed_priors_loop h mask_file vol_idx seed_prior_maps []) (\<lambda>seed_priors.
          then_do (lift (take_voxels2 seed_priors non_zero_voxels)) (\<lambda>prior_maps.
          qc_maps_loop h ''seed_FC'' (seed_maps_list c) prior_maps non_zero_voxels
            non_zero_mask cv template out_dir [0..<length prior_maps]))
     else lift (Inr ())))))"

definition qc_variable_set ::
  "('img, 'fig, 'stats) dataset_diagnosis_helpers \<Rightarrow> string list \<Rightarrow> collected \<Rightarrow> bool list
     \<Rightarrow> string \<Rightarrow> string \<Rightarrow> string \<Rightarrow> bool list
     \<Rightarrow> real list list list \<times> string list \<Rightarrow> string
     \<Rightarrow> ('img, 'fig, 'stats) qc_file fsys
     \<Rightarrow> (pyexc + unit) \<times> ('img, 'fig, 'stats) qc_file fsys" where
  \<comment> \<open>lines 234 to 274: the body of the loop over the two variable sets\<close>
  "qc_variable_set h seed_prior_maps c non_zero_voxels non_zero_mask template mask_file
     vol_idx cv0 out_dir =
     qc_comparisons h seed_prior_maps c non_zero_voxels non_zero_mask template mask_file
       vol_idx (tdof_effect h (tdof_list c) cv0) out_dir"

definition BOLD_SD :: string where
  "BOLD_SD = [CHR ''$'', CHR 0x5C] @ ''mathregular{BOLD_{SD}}$''"

definition CR_SD :: string where
  "CR_SD = [CHR ''$'', CHR 0x5C] @ ''mathregular{CR_{SD}}$''"

definition Corrected_CR_SD :: string where
  "Corrected_CR_SD = ''Corrected $'' @ [CHR 0x5C] @ ''mathregular{CR_{SD}}$''"

definition Random_CR_SD :: string where
  "Random_CR_SD = ''Random $'' @ [CHR 0x5C] @ ''mathregular{CR_{SD}}$''"

text \<open>What lines 186 to 217 leave for the rest of the function.\<close>

record prepared =
  out_dir_normal :: string
  out_dir_corrected :: string
  volume_indices :: "bool list"
  coll :: collected

definition DatasetDiagnosis_prepare ::
  "('i \<Rightarrow> scan_data list) \<Rightarrow> ('img, 'fig, 'stats) dataset_diagnosis_helpers
     \<Rightarrow> 'i dataset_diagnosis_inputs \<Rightarrow> ('img, 'fig, 'stats) qc_file fsys
     \<Rightarrow> (pyexc + prepared) \<times> ('img, 'fig, 'stats) qc_file fsys" where
  \<comment> \<open>lines 186 to 217\<close>
  "DatasetDiagnosis_prepare flatten_list h inputs =
     (let merged = flatten_list (dd_scan_data_list inputs) in
      if length merged < 3
      then lift (Inl (ValueError
             ''Cannot run statistics on a sample size smaller than 3, so an empty figure is generated.''))
      else
        then_do (\<lambda>w. (Inr (abspath w ''analysis_QC''), w)) (\<lambda>out_dir_normal.
        then_do (\<lambda>w. (Inr (), makedirs out_dir_normal w)) (\<lambda>_.
        then_do (\<lambda>w. (Inr (), makedirs (out_dir_normal @ ''/analysis_QC_corrected_CR'') w)) (\<lambda>_.
        then_do (read_volume (brain_mask (dd_mask_file_dict inputs))) (\<lambda>mask_img.
        lift (Inr \<lparr>out_dir_normal = out_dir_normal,
                    out_dir_corrected = out_dir_normal @ ''/analysis_QC_corrected_CR'',
                    volume_indices = map (\<lambda>v. v \<noteq> 0) (GetArrayFromImage h mask_img),
                    coll = scan_loop merged no_scans\<rparr>))))))"

definition DatasetDiagnosis_finish ::
  "('img, 'fig, 'stats) dataset_diagnosis_helpers \<Rightarrow> 'i dataset_diagnosis_inputs \<Rightarrow> prepared
     \<Rightarrow> bool list \<Rightarrow> ('img, 'fig, 'stats) qc_file fsys
     \<Rightarrow> (pyexc + string) \<times> ('img, 'fig, 'stats) qc_file fsys" where
  \<comment> \<open>lines 221 to 277, from the value of \<open>non_zero_voxels\<close> on\<close>
  "DatasetDiagnosis_finish h inputs p non_zero_voxels =
     (let template = template_file (dd_mask_file_dict inputs);
          mask_file = brain_mask (dd_mask_file_dict inputs);
          c = coll p in
      then_do (\<lambda>w. (Inr (abspath w ''non_zero_mask.nii.gz''), w)) (\<lambda>non_zero_mask.
      then_do (recover_3D h mask_file (map of_bool non_zero_voxels)) (\<lambda>img3d.
      then_do (sitk_WriteImage (Volume img3d) non_zero_mask) (\<lambda>_.
      then_do (lift (take_voxels2 (std_maps c) non_zero_voxels)) (\<lambda>std_maps.
      then_do (lift (take_voxels2 (CR_std_maps c) non_zero_voxels)) (\<lambda>CR_std_maps.
      then_do (lift (take_voxels2 (corrected_CR_std_maps c) non_zero_voxels)) (\<lambda>corrected_CR_std_maps.
      then_do (lift (take_voxels2 (random_CR_std_maps c) non_zero_voxels)) (\<lambda>random_CR_std_maps.
      then_do (qc_variable_set h (dd_seed_prior_maps inputs) c non_zero_voxels non_zero_mask
                 template mask_file (volume_indices p)
                 ([std_maps, CR_std_maps], [BOLD_SD, CR_SD]) (out_dir_normal p)) (\<lambda>_.
      then_do (qc_variable_set h (dd_seed_prior_maps inputs) c non_zero_voxels non_zero_mask
                 template mask_file (volume_indices p)
                 ([std_maps, corrected_CR_std_maps, random_CR_std_maps],
                  [BOLD_SD, Corrected_CR_SD, Random_CR_SD]) (out_dir_corrected p)) (\<lambda>_.
      lift (Inr (out_dir_normal p))))))))))))"

definition DatasetDiagnosis_run_interface ::
  "('i \<Rightarrow> scan_data list) \<Rightarrow> ('img, 'fig, 'stats) dataset_diagnosis_helpers
     \<Rightarrow> 'i dataset_diagnosis_inputs \<Rightarrow> ('img, 'fig, 'stats) qc_file fsys
     \<Rightarrow> (pyexc + string) \<times> ('img, 'fig, 'stats) qc_file fsys" where
  \<comment> \<open>at line 220 \<open>std_maps\<close> is still the list of the loop\<close>
  "DatasetDiagnosis_run_interface flatten_list h inputs =
     then_do (DatasetDiagnosis_prepare flatten_list h inputs) (\<lambda>p.
     then_do (lift (non_zero_voxels_of (PyList (std_maps (coll p))))) (\<lambda>non_zero_voxels.
     DatasetDiagnosis_finish h inputs p non_zero_voxels))"

section \<open>Concrete inputs\<close>

text \<open>
  Small inputs on which the definitions are run: a process whose working directory is
  \<open>/wd\<close>, with a home directory; an image of a given shape.
\<close>

definition example_os :: "(string \<rightharpoonup> 'f) \<Rightarrow> 'f fsys" where
  "example_os fs =
     \<lparr>files = fs, dirs = {}, environ = [''HOME'' \<mapsto> ''/home/u''],
      abspath = (\<lambda>p. ''/wd/'' @ p), stdout = []\<rparr>"


text \<open>
  For \<open>PrepMasks\<close>: images are numbered; the list of mask dictionaries arrives nested
  one level and \<open>concat\<close> flattens it; the hemisphere masks are resampled as the
  specification says, every grid being reconcilable, and stored beside the atlas file.
\<close>

definition example_mask_dict :: "string \<rightharpoonup> string" where
  "example_mask_dict =
     [''mask_file'' \<mapsto> ''/d/mask.nii.gz'', ''WM_mask_file'' \<mapsto> ''/d/WM.nii.gz'',
      ''CSF_mask_file'' \<mapsto> ''/d/CSF.nii.gz'',
      ''preprocess_anat_template'' \<mapsto> ''/d/template.nii.gz'']"

definition example_prep_helpers :: "nat prep_masks_helpers" where
  "example_prep_helpers =
     \<lparr>GetSpacing = (\<lambda>img. [1, 1, 1]),
      resample_image_spacing = (\<lambda>img spacing. img),
      resample_mask = resample_mask_spec (\<lambda>m r. Some m) (\<lambda>p. p @ ''_resampled''),
      resample_IC_file =
        (\<lambda>p ref w. (Inr (p @ ''_resampled''), write_file (p @ ''_resampled'') 0 w)),
      compute_edge_mask = (\<lambda>m out n w. (Inr (), write_file out 0 w))\<rparr>"

definition example_prep_inputs ::
  "(string \<rightharpoonup> string) list list \<Rightarrow> bool \<Rightarrow> (string \<rightharpoonup> string) list list prep_masks_inputs" where
  "example_prep_inputs l regions =
     \<lparr>pm_mask_dict_list = l, pm_prior_maps = ''/d/priors.nii.gz'',
      pm_DSURQE_regions = regions\<rparr>"

definition example_prep_files :: "string \<rightharpoonup> nat" where
  "example_prep_files =
     [''/d/mask.nii.gz'' \<mapsto> 1, ''/d/template.nii.gz'' \<mapsto> 2, ''/d/priors.nii.gz'' \<mapsto> 3]"

definition example_atlas_files :: "string \<rightharpoonup> nat" where
  "example_atlas_files =
     example_prep_files
       (''/home/u/.local/share/rabies/DSURQE_40micron_right_hem_mask.nii.gz'' \<mapsto> 4,
        ''/home/u/.local/share/rabies/DSURQE_40micron_left_hem_mask.nii.gz'' \<mapsto> 5)"

text \<open>
  For \<open>ScanDiagnosis\<close>: the seven keys of \<open>file_dict\<close> in the order they are read; a
  \<open>process_data\<close> that hands back the two index lists it was given, so that they can be
  seen in the output; the last path segment for \<open>pathlib.Path(bold_file).name\<close>.
\<close>

definition file_dict_keys :: "string list" where
  "file_dict_keys =
     [''bold_file'', ''CR_data_dict'', ''VE_file'', ''STD_file'', ''CR_STD_file'',
      ''random_CR_STD_file'', ''corrected_CR_STD_file'']"

definition example_mask_file_dict :: mask_file_dict where
  "example_mask_file_dict =
     \<lparr>template_file = ''/wd/display_template.nii.gz'', brain_mask = ''/d/mask.nii.gz'',
      WM_mask = ''/d/WM.nii.gz'', CSF_mask = ''/d/CSF.nii.gz'',
      edge_mask = ''/wd/edge_mask.nii.gz'', right_hem_mask = [], left_hem_mask = [],
      prior_maps_file = ''/d/priors.nii.gz_resampled''\<rparr>"

definition example_scan_helpers ::
  "(string, unit, int list, int list, string) scan_diagnosis_helpers" where
  "example_scan_helpers =
     \<lparr>process_data = (\<lambda>file_values m a bold confound n w. (Inr (bold, confound), w)),
      scan_diagnosis = (\<lambda>bold_file m ti si cr regional w. (Inr (''temporal'', ''spatial''), w)),
      path_name = (\<lambda>p. Inr (rev (takeWhile (\<lambda>c. c \<noteq> CHR ''/'') (rev p))))\<rparr>"

definition example_scan_inputs ::
  "pyval list \<Rightarrow> pyval list \<Rightarrow> (string, unit) scan_diagnosis_inputs" where
  "example_scan_inputs bold confound =
     \<lparr>sd_file_dict =
        [''bold_file'' \<mapsto> ''/d/sub-01_bold.nii.gz'', ''CR_data_dict'' \<mapsto> ''/d/CR.pkl'',
         ''VE_file'' \<mapsto> ''/d/VE.nii.gz'', ''STD_file'' \<mapsto> ''/d/STD.nii.gz'',
         ''CR_STD_file'' \<mapsto> ''/d/CR_STD.nii.gz'',
         ''random_CR_STD_file'' \<mapsto> ''/d/random.nii.gz'',
         ''corrected_CR_STD_file'' \<mapsto> ''/d/corrected.nii.gz''],
      sd_mask_file_dict = example_mask_file_dict, sd_analysis_dict = (),
      sd_prior_bold_idx = bold, sd_prior_confound_idx = confound,
      sd_NPR_extra_sources = 0, sd_DSURQE_regions = False\<rparr>"

text \<open>
  For \<open>DatasetDiagnosis\<close>: three voxels, all in the brain mask; a volume is the list of
  its values; \<open>analysis_QC\<close> draws a figure that names the covariates it was given and
  returns the prior map it compared with; the deviation of the tDOF values is 0 on a
  constant list, 1 otherwise and NaN on the empty list; scans carry one network map.
\<close>

definition example_qc_helpers :: "(real list, string list, real list) dataset_diagnosis_helpers" where
  "example_qc_helpers =
     \<lparr>GetArrayFromImage = (\<lambda>img. img),
      sitk_Resample = (\<lambda>img ref. img),
      recover_3D = (\<lambda>mask_file values w. (Inr values, w)),
      analysis_QC =
        (\<lambda>FC_maps prior_map non_zero_mask corr_variable variable_name template fig_path w.
           (Inr prior_map, write_file fig_path (Figure variable_name) w)),
      np_std = (\<lambda>ts. if ts = [] then NaN
                     else Finite (if list_all (\<lambda>t. t = hd ts) ts then 0 else 1))\<rparr>"

definition example_scan :: "real list \<Rightarrow> int \<Rightarrow> real list list \<Rightarrow> scan_data" where
  "example_scan std dof priors =
     \<lparr>temporal_std = std, predicted_std = std, corrected_CR_std = std, random_CR_std = std,
      DR_BOLD = [std], NPR_maps = [], tDOF = dof, seed_list = [], prior_maps = priors\<rparr>"

definition scan_a :: scan_data where
  "scan_a = example_scan [1, 0, 2] 10 [[1, 0, 1]]"

definition scan_b :: scan_data where
  "scan_b = example_scan [3, 1, 2] 12 [[1, 0, 1]]"

definition scan_c :: scan_data where
  "scan_c = example_scan [2, 5, 4] 10 [[0, 1, 1]]"

definition example_qc_inputs :: "scan_data list list \<Rightarrow> scan_data list list dataset_diagnosis_inputs" where
  "example_qc_inputs l =
     \<lparr>dd_scan_data_list = l, dd_mask_file_dict = example_mask_file_dict,
      dd_seed_prior_maps = []\<rparr>"

definition example_qc_files :: "string \<rightharpoonup> (real list, string list, real list) qc_file" where
  "example_qc_files = [''/d/mask.nii.gz'' \<mapsto> Volume [1, 1, 1]]"

section \<open>Properties of \<open>split_volumes\<close>\<close>

lemma abspath_write_file [simp]: "abspath (write_file p c w) = abspath w"
  by (simp add: write_file_def)

lemma dirs_write_file [simp]: "dirs (write_file p c w) = dirs w"
  by (simp add: write_file_def)

lemma slice_fname_write_file [simp]:
  "slice_fname (write_file p c w) output_prefix x = slice_fname w output_prefix x"
  by (simp add: slice_fname_def)






section \<open>Running statements in sequence\<close>

lemma then_do_Inr: "m w = (Inr x, w1) \<Longrightarrow> then_do m f w = f x w1"
  by (simp add: then_do_def)

lemma then_do_Inl: "m w = (Inl e, w1) \<Longrightarrow> then_do m f w = (Inl e, w1)"
  by (simp add: then_do_def)

lemma then_do_raises: "fst (m w) = Inl e \<Longrightarrow> fst (then_do m f w) = Inl e"
  by (cases "m w") (auto simp: then_do_def)

lemma then_do_lift_Inr [simp]: "then_do (lift (Inr x)) f = f x"
  by (rule ext) (simp add: then_do_def lift_def)

lemma then_do_lift_Inl [simp]: "then_do (lift (Inl e)) f = lift (Inl e)"
  by (rule ext) (simp add: then_do_def lift_def)

lemma then_do_pure [simp]: "then_do (\<lambda>w. (Inr (g w), k w)) f w = f (g w) (k w)"
  by (simp add: then_do_def)


lemma lift_returns [simp]: "lift r w = (Inr y, w') \<longleftrightarrow> r = Inr y \<and> w' = w"
  by (auto simp: lift_def)

section \<open>Properties of \<open>PrepMasks\<close>\<close>

lemma rabies_path_state: "rabies_path w = (fst (rabies_path w), w)"
  by (simp add: rabies_path_def dict_get_def split: option.splits)

lemma rabies_path_write_file:
  "fst (rabies_path (write_file p c w)) = fst (rabies_path w)"
  by (simp add: rabies_path_def write_file_def dict_get_def split: option.splits)

lemma then_do_rabies_path:
  "fst (rabies_path w) = Inr rp \<Longrightarrow> then_do rabies_path f w = f rp w"
  using rabies_path_state [of w] by (simp add: then_do_def)

text \<open>
  C5. With \<open>resample_mask\<close> as the specification describes it: when the hemisphere masks
  are requested (\<open>DSURQE_regions\<close>), the first mask dictionary and the files read before
  the hemisphere step are in place, the atlas path resolves from the environment, and
  an atlas hemisphere file is missing there, the run ends with a ConfigurationError.
  (When only the left file is missing, the right one has to resample first, onto
  a path other than the left file's.) When the masks are not requested the hemisphere
  step returns two empty names and never looks at the atlas path.
\<close>

theorem PrepMasks_missing_hemisphere_file:
  assumes first: "flatten_list (pm_mask_dict_list inputs) = mask_dict # others"
    and keys: "mask_dict ''mask_file'' = Some brain_mask_file"
      "mask_dict ''WM_mask_file'' = Some wm" "mask_dict ''CSF_mask_file'' = Some csf"
      "mask_dict ''preprocess_anat_template'' = Some anat"
    and readable: "files w anat = Some timg" "files w brain_mask_file = Some bimg"
    and requested: "pm_DSURQE_regions inputs"
    and resolved: "fst (rabies_path w) = Inr rp"
    and spec: "resample_mask h = resample_mask_spec onto_grid out_name"
    and apart: "abspath w ''display_template.nii.gz'' \<noteq> right_hem_atlas rp"
      "abspath w ''display_template.nii.gz'' \<noteq> left_hem_atlas rp"
    and missing: "files w (right_hem_atlas rp) = None
       \<or> (files w (left_hem_atlas rp) = None \<and> out_name (right_hem_atlas rp) \<noteq> left_hem_atlas rp
          \<and> (\<forall>m r. files w (right_hem_atlas rp) = Some m \<longrightarrow> onto_grid m r \<noteq> None))"
  shows "fst (PrepMasks_run_interface flatten_list h inputs w) = Inl ConfigurationError
     \<and> hemisphere_masks h False brain_mask_file w = (Inr ([], []), w)"
proof -
  let ?tf = "abspath w ''display_template.nii.gz''"
  let ?w1 = "write_file ?tf (resample_image_spacing h timg (GetSpacing h bimg)) w"
  have rp1: "fst (rabies_path ?w1) = Inr rp"
    using resolved by (simp add: rabies_path_write_file)
  have f1: "files ?w1 p = files w p" if "p \<noteq> ?tf" for p
    using that by (simp add: write_file_def)
  have ref1: "files ?w1 brain_mask_file \<noteq> None"
    using readable by (simp add: write_file_def)
  have unfold: "hemisphere_masks h True brain_mask_file ?w1 =
      then_do (resample_mask_spec onto_grid out_name (right_hem_atlas rp) brain_mask_file)
        (\<lambda>right_hem_mask_file.
           then_do (resample_mask_spec onto_grid out_name (left_hem_atlas rp) brain_mask_file)
             (\<lambda>left_hem_mask_file. lift (Inr (right_hem_mask_file, left_hem_mask_file)))) ?w1"
    by (simp add: hemisphere_masks_def then_do_rabies_path [OF rp1] spec)
  have hem: "fst (hemisphere_masks h True brain_mask_file ?w1) = Inl ConfigurationError"
  proof (cases "files w (right_hem_atlas rp)")
    case None
    then have "files ?w1 (right_hem_atlas rp) = None"
      using apart f1 by metis
    then show ?thesis
      unfolding unfold by (simp add: resample_mask_spec_def then_do_def)
  next
    case (Some m)
    with missing have left: "files w (left_hem_atlas rp) = None"
      and out: "out_name (right_hem_atlas rp) \<noteq> left_hem_atlas rp"
      and grid: "\<And>r. onto_grid m r \<noteq> None"
      by auto
    have right1: "files ?w1 (right_hem_atlas rp) = Some m"
      using Some apart f1 by metis
    have left1: "files ?w1 (left_hem_atlas rp) = None"
      using left apart f1 by metis
    obtain r where r: "files ?w1 brain_mask_file = Some r"
      using ref1 by blast
    obtain res where res: "onto_grid m r = Some res"
      using grid [of r] by blast
    have step: "resample_mask_spec onto_grid out_name (right_hem_atlas rp) brain_mask_file ?w1 =
        (Inr (out_name (right_hem_atlas rp)), write_file (out_name (right_hem_atlas rp)) res ?w1)"
      by (simp add: resample_mask_spec_def right1 r res)
    have left2: "files (write_file (out_name (right_hem_atlas rp)) res ?w1) (left_hem_atlas rp) = None"
      using left1 out by (simp add: write_file_def)
    have "fst (resample_mask_spec onto_grid out_name (left_hem_atlas rp) brain_mask_file
            (write_file (out_name (right_hem_atlas rp)) res ?w1)) = Inl ConfigurationError"
      using left2 by (simp add: resample_mask_spec_def)
    then show ?thesis
      unfolding unfold using step
      by (auto simp: then_do_def split: prod.splits sum.splits)
  qed
  have "fst (PrepMasks_run_interface flatten_list h inputs w) =
        fst (then_do (hemisphere_masks h True brain_mask_file) 
          (\<lambda>(right_hem_mask_file, left_hem_mask_file).
     then_do (resample_IC_file h (pm_prior_maps inputs) brain_mask_file) (\<lambda>prior_maps.
     then_do (\<lambda>w. (Inr (abspath w ''edge_mask.nii.gz''), w)) (\<lambda>edge_mask_file.
     then_do (compute_edge_mask h brain_mask_file edge_mask_file 1) (\<lambda>_.
     lift (Inr \<lparr>template_file = ?tf, brain_mask = brain_mask_file,
                 WM_mask = wm, CSF_mask = csf,
                 edge_mask = edge_mask_file, right_hem_mask = right_hem_mask_file,
                 left_hem_mask = left_hem_mask_file,
                 prior_maps_file = prior_maps\<rparr>))))) ?w1)"
    using first keys readable requested
    by (simp add: PrepMasks_run_interface_def seq_get_def dict_get_def
        then_do_Inr [of "sitk_ReadImage anat" w timg w]
        then_do_Inr [of "sitk_ReadImage brain_mask_file" w bimg w]
        sitk_ReadImage_def sitk_WriteImage_def then_do_Inr [of "sitk_WriteImage _ _"])
  also have "\<dots> = Inl ConfigurationError"
    using hem by (rule then_do_raises)
  finally show ?thesis
    by (simp add: hemisphere_masks_def lift_def)
qed


theorem PrepMasks_missing_hemisphere_file_witness:
  "fst (PrepMasks_run_interface concat example_prep_helpers
          (example_prep_inputs [[example_mask_dict], [Map.empty]] True)
          (example_os example_prep_files)) = Inl ConfigurationError
   \<and> hemisphere_masks example_prep_helpers False ''/d/mask.nii.gz''
         (example_os example_prep_files) = (Inr ([], []), example_os example_prep_files)"
  using PrepMasks_missing_hemisphere_file
    [where flatten_list = concat and h = example_prep_helpers
       and inputs = "example_prep_inputs [[example_mask_dict], [Map.empty]] True"
       and w = "example_os example_prep_files"
       and mask_dict = example_mask_dict and others = "[Map.empty]"
       and brain_mask_file = "''/d/mask.nii.gz''" and wm = "''/d/WM.nii.gz''"
       and csf = "''/d/CSF.nii.gz''" and anat = "''/d/template.nii.gz''"
       and timg = 2 and bimg = 1 and rp = "''/home/u/.local/share/rabies''"
       and onto_grid = "\<lambda>m r. Some m" and out_name = "\<lambda>p. p @ ''_resampled''"]
  by (simp add: example_prep_inputs_def example_mask_dict_def example_os_def
      example_prep_files_def example_prep_helpers_def rabies_path_def dict_get_def
      right_hem_atlas_def left_hem_atlas_def)



text \<open>
  C8. \<open>PrepMasks\<close> reads only the first element of the flattened \<open>mask_dict_list\<close>: two
  lists with the same first flattened dictionary, all other inputs and the state being
  equal, give the same result and leave the same state.
\<close>

theorem PrepMasks_first_mask_dict_only:
  assumes "flatten_list la \<noteq> []" and "flatten_list lb \<noteq> []"
    and "hd (flatten_list la) = hd (flatten_list lb)"
  shows "PrepMasks_run_interface flatten_list h (inputs\<lparr>pm_mask_dict_list := la\<rparr>) w =
         PrepMasks_run_interface flatten_list h (inputs\<lparr>pm_mask_dict_list := lb\<rparr>) w"
proof -
  have "seq_get (flatten_list l) 0 = Inr (hd (flatten_list l))" if "flatten_list l \<noteq> []" for l
    using that by (cases "flatten_list l") (simp_all add: seq_get_def)
  with assms have "seq_get (flatten_list la) 0 = seq_get (flatten_list lb) 0"
    by simp
  then show ?thesis
    by (simp add: PrepMasks_run_interface_def)
qed

theorem PrepMasks_first_mask_dict_only_witness:
  "PrepMasks_run_interface concat example_prep_helpers
     (example_prep_inputs [[example_mask_dict], [Map.empty, Map.empty]] True)
     (example_os example_atlas_files) =
   PrepMasks_run_interface concat example_prep_helpers
     (example_prep_inputs [[], [example_mask_dict]] True) (example_os example_atlas_files)"
  using PrepMasks_first_mask_dict_only
    [where flatten_list = concat and la = "[[example_mask_dict], [Map.empty, Map.empty]]"
       and lb = "[[], [example_mask_dict]]" and h = example_prep_helpers
       and inputs = "example_prep_inputs [] True" and w = "example_os example_atlas_files"]
  by (simp add: example_prep_inputs_def)

section \<open>Properties of \<open>ScanDiagnosis\<close>\<close>

lemma int_each_append:
  "int_each (xs @ ys) =
     (case int_each xs of
        Inl e \<Rightarrow> Inl e
      | Inr ns \<Rightarrow> (case int_each ys of Inl e \<Rightarrow> Inl e | Inr ms \<Rightarrow> Inr (ns @ ms)))"
  by (induction xs) (auto split: sum.splits)

lemma int_each_returns:
  "int_each xs = Inr ns \<longleftrightarrow> map py_int xs = map Inr ns"
proof (induction xs arbitrary: ns)
  case Nil
  then show ?case by auto
next
  case (Cons x xs)
  show ?case
  proof (cases "py_int x")
    case (Inl e)
    then show ?thesis by (cases ns) auto
  next
    case (Inr n)
    show ?thesis
    proof (cases "int_each xs")
      case (Inl e)
      with Cons.IH have "map py_int xs \<noteq> map Inr ms" for ms
        by (metis sum.distinct(1))
      with Inl Inr show ?thesis by (cases ns) auto
    next
      case r: (Inr ms)
      with Cons.IH have "map py_int xs = map Inr ms'  \<longleftrightarrow> ms = ms'" for ms'
        by auto
      with r Inr show ?thesis by (cases ns) auto
    qed
  qed
qed

lemma int_each_first_failure:
  assumes "xs = pre @ v # post" and "\<forall>u \<in> set pre. \<exists>n. py_int u = Inr n"
    and "py_int v = Inl e"
  shows "int_each xs = Inl e"
proof -
  from assms(2) obtain ns where "int_each pre = Inr ns"
  proof (induction pre arbitrary: thesis)
    case Nil
    then show ?case by simp
  next
    case (Cons u us)
    from Cons.prems(2) obtain n where "py_int u = Inr n" by auto
    moreover from Cons.prems(2) have "\<forall>u \<in> set us. \<exists>n. py_int u = Inr n" by simp
    then obtain ms where "int_each us = Inr ms" using Cons.IH by blast
    ultimately show ?case using Cons.prems(1) by simp
  qed
  with assms(1,3) show ?thesis
    by (simp add: int_each_append)
qed

lemma py_int_exception:
  "py_int v = Inl e \<Longrightarrow>
     (case v of
        PyStr s \<Rightarrow> \<exists>msg. e = ValueError msg
      | PyFloat f \<Rightarrow> (if f = NaN then \<exists>msg. e = ValueError msg else e = OverflowError)
      | _ \<Rightarrow> e = TypeError)"
  by (cases v rule: py_int.cases) (auto split: option.splits)

lemma file_dict_lookups:
  assumes "set file_dict_keys \<subseteq> dom (sd_file_dict inputs)"
  shows "ScanDiagnosis_run_interface h inputs =
     then_do (lift (int_each (sd_prior_bold_idx inputs))) (\<lambda>prior_bold_idx.
     then_do (lift (int_each (sd_prior_confound_idx inputs))) (\<lambda>prior_confound_idx.
     ScanDiagnosis_from_indices h inputs (map (the \<circ> sd_file_dict inputs) file_dict_keys)
       prior_bold_idx prior_confound_idx))"
proof -
  have "dict_get (sd_file_dict inputs) k = Inr (the (sd_file_dict inputs k))"
    if "k \<in> set file_dict_keys" for k
    using that assms by (auto simp: dict_get_def)
  then show ?thesis
    by (simp add: ScanDiagnosis_run_interface_def file_dict_keys_def)
qed

text \<open>
  C6, as amended. With the seven keys of \<open>file_dict\<close> present: every element of
  \<open>prior_bold_idx\<close> and \<open>prior_confound_idx\<close> goes through \<open>int\<close> before anything else
  uses it, and when all convert, the rest of the function (from \<open>process_data\<close> on)
  receives the converted lists. When some element does not convert, the run ends, with
  the state untouched, in the exception \<open>int\<close> raises on the first such element of
  \<open>prior_bold_idx\<close> followed by \<open>prior_confound_idx\<close>: a ValueError for a string that is
  not an integer literal and for NaN, an OverflowError for an infinite float, a
  TypeError for \<open>None\<close> and any other object.
\<close>

theorem ScanDiagnosis_index_coercion:
  assumes "set file_dict_keys \<subseteq> dom (sd_file_dict inputs)"
  shows "(map py_int (sd_prior_bold_idx inputs) = map Inr bs
            \<and> map py_int (sd_prior_confound_idx inputs) = map Inr cs \<longrightarrow>
          ScanDiagnosis_run_interface h inputs w =
            ScanDiagnosis_from_indices h inputs
              (map (the \<circ> sd_file_dict inputs) file_dict_keys) bs cs w)
       \<and> (sd_prior_bold_idx inputs @ sd_prior_confound_idx inputs = pre @ v # post
            \<and> (\<forall>u \<in> set pre. \<exists>n. py_int u = Inr n) \<and> py_int v = Inl e \<longrightarrow>
          ScanDiagnosis_run_interface h inputs w = (Inl e, w)
            \<and> (case v of
                  PyStr s \<Rightarrow> \<exists>msg. e = ValueError msg
                | PyFloat f \<Rightarrow> (if f = NaN then \<exists>msg. e = ValueError msg else e = OverflowError)
                | _ \<Rightarrow> e = TypeError))"
proof (intro conjI impI)
  assume "map py_int (sd_prior_bold_idx inputs) = map Inr bs
            \<and> map py_int (sd_prior_confound_idx inputs) = map Inr cs"
  then have "int_each (sd_prior_bold_idx inputs) = Inr bs"
    and "int_each (sd_prior_confound_idx inputs) = Inr cs"
    by (simp_all add: int_each_returns)
  then show "ScanDiagnosis_run_interface h inputs w =
      ScanDiagnosis_from_indices h inputs (map (the \<circ> sd_file_dict inputs) file_dict_keys) bs cs w"
    by (simp add: file_dict_lookups [OF assms])
next
  assume a: "sd_prior_bold_idx inputs @ sd_prior_confound_idx inputs = pre @ v # post
            \<and> (\<forall>u \<in> set pre. \<exists>n. py_int u = Inr n) \<and> py_int v = Inl e"
  then have "int_each (sd_prior_bold_idx inputs @ sd_prior_confound_idx inputs) = Inl e"
    using int_each_first_failure by blast
  then show "ScanDiagnosis_run_interface h inputs w = (Inl e, w)"
    by (auto simp: file_dict_lookups [OF assms] int_each_append lift_def split: sum.splits)
  from a show "case v of
                  PyStr s \<Rightarrow> \<exists>msg. e = ValueError msg
                | PyFloat f \<Rightarrow> (if f = NaN then \<exists>msg. e = ValueError msg else e = OverflowError)
                | _ \<Rightarrow> e = TypeError"
    using py_int_exception by blast
qed

lemma example_int_literals:
  "int_of_str '' 2 '' = Some 2" "int_of_str ''x3'' = None"
  by (simp_all add: int_of_str_def strip_def is_space_def parse_unsigned_def is_digit_def
      digit_val_def)

theorem ScanDiagnosis_index_coercion_witness:
  "fst (ScanDiagnosis_run_interface example_scan_helpers
          (example_scan_inputs [PyInt 1, PyStr '' 2 ''] [PyFloat (Finite (7 / 2)), PyBool True])
          (example_os Map.empty)) =
     Inr \<lparr>figure_temporal_diagnosis = ''/wd/sub-01_bold_temporal_diagnosis.png'',
          figure_spatial_diagnosis = ''/wd/sub-01_bold_spatial_diagnosis.png'',
          temporal_info = [1, 2], spatial_info = [3, 1]\<rparr>
   \<and> (\<exists>msg. ScanDiagnosis_run_interface example_scan_helpers
          (example_scan_inputs [PyInt 1, PyStr '' 2 ''] [PyStr ''x3'', PyNone])
          (example_os Map.empty) = (Inl (ValueError msg), example_os Map.empty))"
proof -
  have f: "\<lfloor>7 / 2 :: real\<rfloor> = 3" by linarith
  have keys: "set file_dict_keys \<subseteq> dom (sd_file_dict (example_scan_inputs b c))" for b c
    by (simp add: file_dict_keys_def example_scan_inputs_def)
  from ScanDiagnosis_index_coercion
    [OF keys, where bs = "[1, 2]" and cs = "[3, 1]" and h = example_scan_helpers
       and w = "example_os Map.empty"]
  have "fst (ScanDiagnosis_run_interface example_scan_helpers
          (example_scan_inputs [PyInt 1, PyStr '' 2 ''] [PyFloat (Finite (7 / 2)), PyBool True])
          (example_os Map.empty)) =
     Inr \<lparr>figure_temporal_diagnosis = ''/wd/sub-01_bold_temporal_diagnosis.png'',
          figure_spatial_diagnosis = ''/wd/sub-01_bold_spatial_diagnosis.png'',
          temporal_info = [1, 2], spatial_info = [3, 1]\<rparr>"
    by (simp add: example_scan_inputs_def example_int_literals f ScanDiagnosis_from_indices_def
        example_scan_helpers_def file_dict_keys_def then_do_def lift_def example_os_def
        write_file_def)
  moreover
  from ScanDiagnosis_index_coercion
    [OF keys, where pre = "[PyInt 1, PyStr '' 2 '']" and v = "PyStr ''x3''" and post = "[PyNone]"
       and e = "ValueError ''invalid literal for int() with base 10''"
       and h = example_scan_helpers and w = "example_os Map.empty"]
  have "\<exists>msg. ScanDiagnosis_run_interface example_scan_helpers
          (example_scan_inputs [PyInt 1, PyStr '' 2 ''] [PyStr ''x3'', PyNone])
          (example_os Map.empty) = (Inl (ValueError msg), example_os Map.empty)"
    by (simp add: example_scan_inputs_def example_int_literals)
  ultimately show ?thesis by blast
qed

text \<open>
  C6 as stated fails: \<open>None\<close> in the list is not coercible, and the run ends in a
  TypeError, not a ValueError.
\<close>

theorem ScanDiagnosis_None_index_is_TypeError:
  "py_int PyNone = Inl TypeError
   \<and> ScanDiagnosis_run_interface example_scan_helpers (example_scan_inputs [PyInt 1, PyNone] [])
       (example_os Map.empty) = (Inl TypeError, example_os Map.empty)"
  by (simp add: ScanDiagnosis_run_interface_def example_scan_inputs_def dict_get_def lift_def
      then_do_def)

section \<open>Properties of \<open>DatasetDiagnosis\<close>\<close>

lemma scan_loop_collects:
  "scan_loop merged c =
     \<lparr>std_maps = std_maps c @ map temporal_std merged,
      CR_std_maps = CR_std_maps c @ map predicted_std merged,
      random_CR_std_maps = random_CR_std_maps c @ map random_CR_std merged,
      corrected_CR_std_maps = corrected_CR_std_maps c @ map corrected_CR_std merged,
      DR_maps_list = DR_maps_list c @ map DR_BOLD merged,
      seed_maps_list = seed_maps_list c @ map seed_list merged,
      NPR_maps_list = NPR_maps_list c @ map NPR_maps merged,
      tdof_list = tdof_list c @ map tDOF merged,
      scan_data_var = (if merged = [] then scan_data_var c else Some (last merged))\<rparr>"
  by (induction merged arbitrary: c) simp_all

text \<open>
  C2, as amended. For every input whose flattened list has fewer than 3 scan records,
  the run ends with a ValueError (the generic builtin class; the message is that of line
  189), and it ends there before any statistics: whatever the helpers that read the
  mask, compute the statistics and draw the figures would do, the outcome is the same.
\<close>

theorem DatasetDiagnosis_small_sample:
  assumes "length (flatten_list (dd_scan_data_list inputs)) < 3"
  shows "fst (DatasetDiagnosis_run_interface flatten_list h inputs w) =
           Inl (ValueError
             ''Cannot run statistics on a sample size smaller than 3, so an empty figure is generated.'')
       \<and> DatasetDiagnosis_run_interface flatten_list h' inputs w =
           DatasetDiagnosis_run_interface flatten_list h inputs w"
  using assms
  by (simp add: DatasetDiagnosis_run_interface_def DatasetDiagnosis_prepare_def lift_def
      then_do_def)

theorem DatasetDiagnosis_small_sample_witness:
  "fst (DatasetDiagnosis_run_interface concat example_qc_helpers
          (example_qc_inputs [[scan_a], [scan_b]]) (example_os example_qc_files)) =
     Inl (ValueError
       ''Cannot run statistics on a sample size smaller than 3, so an empty figure is generated.'')
   \<and> DatasetDiagnosis_run_interface concat
         (example_qc_helpers\<lparr>recover_3D := \<lambda>mask_file values w. (Inl (RuntimeError mask_file), w)\<rparr>)
         (example_qc_inputs [[scan_a], [scan_b]]) (example_os example_qc_files) =
       DatasetDiagnosis_run_interface concat example_qc_helpers
         (example_qc_inputs [[scan_a], [scan_b]]) (example_os example_qc_files)"
  using DatasetDiagnosis_small_sample
    [where flatten_list = concat and inputs = "example_qc_inputs [[scan_a], [scan_b]]"
       and h = example_qc_helpers
       and h' = "example_qc_helpers\<lparr>recover_3D := \<lambda>mask_file values w. (Inl (RuntimeError mask_file), w)\<rparr>"
       and w = "example_os example_qc_files"]
  by (simp add: example_qc_inputs_def)

text \<open>
  C2 as stated fails: on two scans the exception is Python's ValueError, the class that
  the other input checks raise too, not a distinct InsufficientSampleError, and the
  run ends with that exception rather than with a result.
\<close>

theorem DatasetDiagnosis_two_scans_ValueError:
  "fst (DatasetDiagnosis_run_interface concat example_qc_helpers
          (example_qc_inputs [[scan_a, scan_b]]) (example_os example_qc_files)) =
     Inl (ValueError
       ''Cannot run statistics on a sample size smaller than 3, so an empty figure is generated.'')
   \<and> fst (DatasetDiagnosis_run_interface concat example_qc_helpers
          (example_qc_inputs [[scan_a, scan_b]]) (example_os example_qc_files)) \<noteq>
     Inl InsufficientSampleError"
  by (simp add: DatasetDiagnosis_run_interface_def DatasetDiagnosis_prepare_def lift_def
      then_do_def example_qc_inputs_def)

text \<open>
  C3, on the code as it stands. For every input of 3 or more scan records whose brain
  mask can be read, the run ends with an AttributeError at line 220 and the files are
  those that were there before: no figure, no table and no \<open>non_zero_mask.nii.gz\<close> is
  written.
\<close>

theorem DatasetDiagnosis_raises_at_line_220:
  assumes "3 \<le> length (flatten_list (dd_scan_data_list inputs))"
    and "files w (brain_mask (dd_mask_file_dict inputs)) = Some (Volume img)"
  shows "fst (DatasetDiagnosis_run_interface flatten_list h inputs w) = Inl AttributeError
     \<and> files (snd (DatasetDiagnosis_run_interface flatten_list h inputs w)) = files w"
  using assms
  by (simp add: DatasetDiagnosis_run_interface_def DatasetDiagnosis_prepare_def lift_def then_do_def
      read_volume_def makedirs_def non_zero_voxels_of_def)

theorem DatasetDiagnosis_raises_at_line_220_witness:
  "fst (DatasetDiagnosis_run_interface concat example_qc_helpers
          (example_qc_inputs [[scan_a, scan_b], [scan_c]]) (example_os example_qc_files)) =
     Inl AttributeError
   \<and> files (snd (DatasetDiagnosis_run_interface concat example_qc_helpers
          (example_qc_inputs [[scan_a, scan_b], [scan_c]]) (example_os example_qc_files))) =
     example_qc_files"
  using DatasetDiagnosis_raises_at_line_220
    [where flatten_list = concat and inputs = "example_qc_inputs [[scan_a, scan_b], [scan_c]]"
       and h = example_qc_helpers and w = "example_os example_qc_files" and img = "[1, 1, 1]"]
  by (simp add: example_qc_inputs_def example_os_def example_qc_files_def
      example_mask_file_dict_def)

text \<open>
  C1, on the code as it stands. On three scans, one of which has zero signal STD at
  the second voxel, the run ends with an AttributeError: line 220 is evaluated on the
  Python list, before line 224 makes it an array. The same expression on the array
  gives the mask the specification describes, without the second voxel.
\<close>

theorem non_zero_voxels_list_vs_array:
  "fst (DatasetDiagnosis_run_interface concat example_qc_helpers
          (example_qc_inputs [[scan_a, scan_b, scan_c]]) (example_os example_qc_files)) =
     Inl AttributeError
   \<and> non_zero_voxels_of (PyList (map temporal_std [scan_a, scan_b, scan_c])) = Inl AttributeError
   \<and> non_zero_voxels_of (NdArray (map temporal_std [scan_a, scan_b, scan_c])) =
       Inr [True, False, True]"
  by (simp add: DatasetDiagnosis_run_interface_def DatasetDiagnosis_prepare_def lift_def then_do_def
      read_volume_def makedirs_def non_zero_voxels_of_def example_qc_inputs_def example_os_def
      example_qc_files_def example_mask_file_dict_def scan_a_def scan_b_def scan_c_def
      example_scan_def)

subsection \<open>The function as a whole\<close>

text \<open>
  Every run ends with an exception: the ValueError of the sample-size check, the
  RuntimeError of a brain mask that cannot be read, or the AttributeError of line 220.
  The statements from line 221 on are never reached.
\<close>

lemma DatasetDiagnosis_outcome:
  "DatasetDiagnosis_run_interface flatten_list h inputs w =
     (if length (flatten_list (dd_scan_data_list inputs)) < 3
      then (Inl (ValueError
              ''Cannot run statistics on a sample size smaller than 3, so an empty figure is generated.''),
            w)
      else (case files w (brain_mask (dd_mask_file_dict inputs)) of
              Some (Volume img) \<Rightarrow> Inl AttributeError
            | _ \<Rightarrow> Inl (RuntimeError (brain_mask (dd_mask_file_dict inputs))),
            makedirs (abspath w ''analysis_QC'' @ ''/analysis_QC_corrected_CR'')
              (makedirs (abspath w ''analysis_QC'') w)))"
  by (simp add: DatasetDiagnosis_run_interface_def DatasetDiagnosis_prepare_def lift_def then_do_def
      read_volume_def makedirs_def non_zero_voxels_of_def split: option.splits qc_file.splits)

text \<open>
  C4, on the code as it stands. Three scans whose tDOF values differ (10, 12, 10): the
  run ends with the AttributeError of line 220 after making the two directories, and
  no file is written, so no comparison is made and tDOF is appended to no variable
  set. The outcome is the same when the three tDOF values are equal.
\<close>

theorem tdof_never_appended_three_scans:
  "map tDOF [scan_a, scan_b, scan_c] = [10, 12, 10]
   \<and> DatasetDiagnosis_run_interface concat example_qc_helpers
       (example_qc_inputs [[scan_a, scan_b, scan_c]]) (example_os example_qc_files) =
     (Inl AttributeError,
      (example_os example_qc_files)
        \<lparr>dirs := {''/wd/analysis_QC'', ''/wd/analysis_QC/analysis_QC_corrected_CR''}\<rparr>)
   \<and> DatasetDiagnosis_run_interface concat example_qc_helpers
       (example_qc_inputs [[scan_a, scan_b\<lparr>tDOF := 10\<rparr>, scan_c]]) (example_os example_qc_files) =
     DatasetDiagnosis_run_interface concat example_qc_helpers
       (example_qc_inputs [[scan_a, scan_b, scan_c]]) (example_os example_qc_files)"
  by (auto simp: DatasetDiagnosis_outcome example_qc_inputs_def example_os_def
      example_qc_files_def example_mask_file_dict_def makedirs_def scan_a_def scan_b_def
      scan_c_def example_scan_def)

subsection \<open>Line 220 on an array\<close>

text \<open>
  What the expression of line 220 computes on the stacked array, as it would after the
  conversion of line 224: the voxels at which no scan has a zero temporal STD.
\<close>

lemma col_sums_rectangular:
  assumes "rows \<noteq> []" and "\<forall>r \<in> set rows. length r = n"
  shows "length (col_sums rows) = n
     \<and> (\<forall>j < n. col_sums rows ! j = 0 \<longleftrightarrow> (\<forall>r \<in> set rows. \<not> r ! j))"
  using assms
proof (induction rows rule: col_sums.induct)
  case 1
  then show ?case by simp
next
  case (2 r)
  then show ?case by simp
next
  case (3 r r' rs)
  then have IH: "length (col_sums (r' # rs)) = n"
    "\<And>j. j < n \<Longrightarrow> col_sums (r' # rs) ! j = 0 \<longleftrightarrow> (\<forall>q \<in> set (r' # rs). \<not> q ! j)"
    by auto
  from "3.prems" have r: "length r = n" by simp
  show ?case
  proof (intro conjI allI impI)
    show "length (col_sums (r # r' # rs)) = n"
      using IH(1) r by simp
  next
    fix j assume j: "j < n"
    then have "col_sums (r # r' # rs) ! j = of_bool (r ! j) + col_sums (r' # rs) ! j"
      using IH(1) r by simp
    then show "col_sums (r # r' # rs) ! j = 0 \<longleftrightarrow> (\<forall>q \<in> set (r # r' # rs). \<not> q ! j)"
      using IH(2) [OF j] by auto
  qed
qed

lemma non_zero_voxels_on_array:
  assumes "maps \<noteq> []" and "\<forall>r \<in> set maps. length r = n"
  shows "\<exists>m. non_zero_voxels_of (NdArray maps) = Inr m \<and> length m = n
     \<and> (\<forall>j < n. m ! j \<longleftrightarrow> (\<forall>r \<in> set maps. r ! j \<noteq> 0))"
proof -
  let ?rows = "map (map (\<lambda>v. v = 0)) maps"
  have "?rows \<noteq> []" and "\<forall>r \<in> set ?rows. length r = n"
    using assms by auto
  from col_sums_rectangular [OF this]
  have len: "length (col_sums ?rows) = n"
    and zero: "\<And>j. j < n \<Longrightarrow> col_sums ?rows ! j = 0 \<longleftrightarrow> (\<forall>r \<in> set ?rows. \<not> r ! j)"
    by auto
  have "(\<forall>r \<in> set ?rows. \<not> r ! j) \<longleftrightarrow> (\<forall>r \<in> set maps. r ! j \<noteq> 0)" if "j < n" for j
    using that assms(2) by auto
  with len zero show ?thesis
    by (simp add: non_zero_voxels_of_def)
qed

subsection \<open>The order of the scan records\<close>

lemma DatasetDiagnosis_order:
  "DatasetDiagnosis_run_interface concat h (inputs\<lparr>dd_scan_data_list := [rev merged]\<rparr>) w =
   DatasetDiagnosis_run_interface concat h (inputs\<lparr>dd_scan_data_list := [merged]\<rparr>) w"
  by (simp add: DatasetDiagnosis_outcome split: option.splits qc_file.splits)

text \<open>
  C9, on the code as it stands. Three scans whose last record has other prior maps
  than the first: in either order the run ends with the AttributeError of line 220 and
  leaves the same state. Line 240, which would read the prior maps of the last record,
  is not reached, and the order of the records changes nothing.
\<close>

theorem record_order_changes_nothing:
  "prior_maps (last [scan_a, scan_b, scan_c]) \<noteq> prior_maps (last [scan_c, scan_b, scan_a])
   \<and> fst (DatasetDiagnosis_run_interface concat example_qc_helpers
          (example_qc_inputs [[scan_a, scan_b, scan_c]]) (example_os example_qc_files)) =
       Inl AttributeError
   \<and> DatasetDiagnosis_run_interface concat example_qc_helpers
       (example_qc_inputs [[scan_c, scan_b, scan_a]]) (example_os example_qc_files) =
     DatasetDiagnosis_run_interface concat example_qc_helpers
       (example_qc_inputs [[scan_a, scan_b, scan_c]]) (example_os example_qc_files)"
proof -
  have "prior_maps (last [scan_a, scan_b, scan_c]) \<noteq> prior_maps (last [scan_c, scan_b, scan_a])"
    by (simp add: scan_a_def scan_c_def example_scan_def)
  moreover have "fst (DatasetDiagnosis_run_interface concat example_qc_helpers
          (example_qc_inputs [[scan_a, scan_b, scan_c]]) (example_os example_qc_files)) =
       Inl AttributeError"
    by (simp add: DatasetDiagnosis_outcome example_qc_inputs_def example_os_def
        example_qc_files_def example_mask_file_dict_def)
  moreover have "DatasetDiagnosis_run_interface concat example_qc_helpers
       (example_qc_inputs [[scan_c, scan_b, scan_a]]) (example_os example_qc_files) =
     DatasetDiagnosis_run_interface concat example_qc_helpers
       (example_qc_inputs [[scan_a, scan_b, scan_c]]) (example_os example_qc_files)"
    using DatasetDiagnosis_order
      [where h = example_qc_helpers and inputs = "example_qc_inputs []"
         and merged = "[scan_c, scan_b, scan_a]" and w = "example_os example_qc_files"]
    by (simp add: example_qc_inputs_def)
  ultimately show ?thesis by blast
qed

end
